theory Spec2Isabelle
  imports Complex_Main
begin

section \<open>Trader profile analysis: values, dictionaries and library functions\<close>

text \<open>
  The development embeds \<^verbatim>\<open>analyze_trader_profile\<close> of
  \<^verbatim>\<open>scripts/analyze_trader_profile.py\<close>.

  Conventions of the embedding.
  \<^item> A CSV row (one \<^verbatim>\<open>csv.DictReader\<close> record) is a finite mapping from column
    names to strings: \<open>string \<rightharpoonup> string\<close>. A field that the reader leaves as
    \<^verbatim>\<open>None\<close> (a short row) is not modelled.
  \<^item> A Python \<^verbatim>\<open>dict\<close> is an association list in insertion order with unique keys;
    \<open>dict_set\<close> overwrites in place or appends, as item assignment does.
  \<^item> A Python \<^verbatim>\<open>float\<close> is an exact rational (\<open>rat\<close>): binary rounding, overflow,
    infinities and NaN of IEEE doubles are outside the model. The one infinity the
    function creates itself, \<^verbatim>\<open>float('inf')\<close> for the profit factor, is the
    constructor \<open>PosInf\<close> of \<open>extfloat\<close>.
  \<^item> The two library parsers are parameters of the model: \<open>fromisoformat\<close> stands for
    \<^verbatim>\<open>datetime.fromisoformat\<close> and \<open>py_float\<close> for \<^verbatim>\<open>float\<close> on strings; each
    returns \<open>None\<close> where the library raises.
  \<^item> Every \<^verbatim>\<open>raise\<close> the function can reach is a value \<open>Inl e\<close> of the result type;
    a local variable that may be unbound is an \<open>option\<close>.
\<close>

datatype pyerror =
    UnboundLocalError string
  | TypeError
  | ValueError
  | IndexError
  | AttributeError

datatype pynum = PInt int | PFloat rat

datatype extfloat = Fin rat | PosInf

datatype pyval =
    VNum pynum
  | VStr string
  | VList "pyval list"
  | VDict "(pyval \<times> pyval) list"

type_synonym pydict = "(pyval \<times> pyval) list"

type_synonym row = "string \<rightharpoonup> string"

definition bind_result :: "pyerror + 'a \<Rightarrow> ('a \<Rightarrow> pyerror + 'b) \<Rightarrow> pyerror + 'b" where
  \<comment> \<open>sequencing: an exception of the first step ends the run\<close>
  "bind_result m f = (case m of Inl e \<Rightarrow> Inl e | Inr x \<Rightarrow> f x)"

subsection \<open>Dictionaries\<close>

fun dict_set :: "('k \<times> 'v) list \<Rightarrow> 'k \<Rightarrow> 'v \<Rightarrow> ('k \<times> 'v) list" where
  "dict_set [] k v = [(k, v)]"
| "dict_set ((k', v') # d) k v =
     (if k' = k then (k', v) # d else (k', v') # dict_set d k v)"

definition dict_get :: "('k \<times> 'v) list \<Rightarrow> 'k \<Rightarrow> 'v \<Rightarrow> 'v" where
  \<comment> \<open>\<^verbatim>\<open>d.get(k, default)\<close>\<close>
  "dict_get d k dflt = (case map_of d k of None \<Rightarrow> dflt | Some v \<Rightarrow> v)"

definition incr :: "('k \<times> nat) list \<Rightarrow> 'k \<Rightarrow> ('k \<times> nat) list" where
  \<comment> \<open>\<^verbatim>\<open>d[k] += 1\<close> on a \<^verbatim>\<open>defaultdict(int)\<close>\<close>
  "incr d k = dict_set d k (dict_get d k 0 + 1)"

definition counts :: "'k list \<Rightarrow> ('k \<times> nat) list" where
  \<comment> \<open>the counting loop \<^verbatim>\<open>for x in xs: d[x] += 1\<close> from an empty \<^verbatim>\<open>defaultdict(int)\<close>\<close>
  "counts ks = foldl incr [] ks"

definition row_get :: "row \<Rightarrow> string \<Rightarrow> string \<Rightarrow> string" where
  \<comment> \<open>\<^verbatim>\<open>o.get(k, default)\<close> on a row\<close>
  "row_get r k dflt = (case r k of None \<Rightarrow> dflt | Some v \<Rightarrow> v)"

definition str_keys :: "(string \<times> nat) list \<Rightarrow> pydict" where
  \<comment> \<open>\<^verbatim>\<open>dict(d)\<close> of a string-keyed counter, as a value of the profile\<close>
  "str_keys d = map (\<lambda>(k, c). (VStr k, VNum (PInt (int c)))) d"

definition int_keys :: "(nat \<times> nat) list \<Rightarrow> pydict" where
  \<comment> \<open>\<^verbatim>\<open>dict(d)\<close> of an integer-keyed counter, as a value of the profile\<close>
  "int_keys d = map (\<lambda>(k, c). (VNum (PInt (int k)), VNum (PInt (int c)))) d"

subsection \<open>Numbers\<close>

fun num_val :: "pynum \<Rightarrow> rat" where
  "num_val (PInt i) = of_int i"
| "num_val (PFloat x) = x"

definition py_int :: "rat \<Rightarrow> int" where
  \<comment> \<open>\<^verbatim>\<open>int(x)\<close> on a float: truncation towards zero\<close>
  "py_int x = (if 0 \<le> x then \<lfloor>x\<rfloor> else \<lceil>x\<rceil>)"

definition round_half_even :: "rat \<Rightarrow> int" where
  "round_half_even y =
     (let f = \<lfloor>y\<rfloor>; r = y - of_int f
      in if r < 1 / 2 then f else if 1 / 2 < r then f + 1
         else if even f then f else f + 1)"

fun py_round :: "pynum \<Rightarrow> nat \<Rightarrow> pynum" where
  \<comment> \<open>\<^verbatim>\<open>round(x, ndigits)\<close>: an int is returned unchanged, a float is rounded half to even\<close>
  "py_round (PInt i) nd = PInt i"
| "py_round (PFloat x) nd = PFloat (of_int (round_half_even (x * 10 ^ nd)) / 10 ^ nd)"

definition clamp_score :: "int \<Rightarrow> int" where
  \<comment> \<open>\<^verbatim>\<open>min(10, max(1, n))\<close>\<close>
  "clamp_score n = min 10 (max 1 n)"

subsection \<open>Strings\<close>

definition replace_Z :: "string \<Rightarrow> string" where
  \<comment> \<open>\<^verbatim>\<open>s.replace('Z', '+00:00')\<close>\<close>
  "replace_Z s = concat (map (\<lambda>c. if c = CHR ''Z'' then ''+00:00'' else [c]) s)"

fun py_in :: "string \<Rightarrow> string \<Rightarrow> bool" where
  \<comment> \<open>\<^verbatim>\<open>sub in s\<close> on strings: \<open>sub\<close> occurs as a contiguous substring of \<open>s\<close>\<close>
  "py_in sub [] = (sub = [])"
| "py_in sub (c # cs) = (take (length sub) (c # cs) = sub \<or> py_in sub cs)"

subsection \<open>Dates and times\<close>

text \<open>
  A \<^verbatim>\<open>datetime\<close> object with the fields the library gives it. \<open>tzinfo\<close> is \<open>None\<close> for
  a naive value and \<open>Some off\<close> for an aware one, \<open>off\<close> being its UTC offset in
  microseconds. \<open>toordinal\<close> follows the proleptic Gregorian day count of the library
  (day 1 is 0001-01-01, a Monday).
\<close>

record datetime =
  year :: nat
  month :: nat
  day :: nat
  hour :: nat
  minute :: nat
  second :: nat
  microsecond :: nat
  tzinfo :: "int option"

definition is_leap :: "nat \<Rightarrow> bool" where
  "is_leap y = (y mod 4 = 0 \<and> (y mod 100 \<noteq> 0 \<or> y mod 400 = 0))"

definition days_before_year :: "nat \<Rightarrow> int" where
  "days_before_year y =
     (let y1 = int y - 1 in y1 * 365 + y1 div 4 - y1 div 100 + y1 div 400)"

definition days_before_month :: "nat \<Rightarrow> nat \<Rightarrow> int" where
  "days_before_month y m =
     int (sum_list (take (m - 1) [31, 28, 31, 30, 31, 30, 31, 31, 30, 31, 30, 31]))
       + (if m > 2 \<and> is_leap y then 1 else 0)"

definition toordinal :: "datetime \<Rightarrow> int" where
  "toordinal t = days_before_year (year t) + days_before_month (year t) (month t) + int (day t)"

definition weekday :: "datetime \<Rightarrow> nat" where
  \<comment> \<open>\<^verbatim>\<open>ts.weekday()\<close>: 0 is Monday, 6 is Sunday\<close>
  "weekday t = nat ((toordinal t + 6) mod 7)"

definition local_us :: "datetime \<Rightarrow> int" where
  \<comment> \<open>microseconds of the wall-clock reading since the start of day 0\<close>
  "local_us t =
     (((toordinal t * 24 + int (hour t)) * 60 + int (minute t)) * 60 + int (second t)) * 1000000
       + int (microsecond t)"

definition instant :: "datetime \<Rightarrow> int" where
  \<comment> \<open>the reading with the UTC offset of an aware value taken off\<close>
  "instant t = local_us t - (case tzinfo t of None \<Rightarrow> 0 | Some off \<Rightarrow> off)"

definition comparable :: "datetime \<Rightarrow> datetime \<Rightarrow> bool" where
  "comparable a b = ((tzinfo a = None) = (tzinfo b = None))"

definition dt_lt :: "datetime \<Rightarrow> datetime \<Rightarrow> pyerror + bool" where
  \<comment> \<open>\<^verbatim>\<open>a < b\<close>: a naive and an aware value do not compare\<close>
  "dt_lt a b = (if comparable a b then Inr (instant a < instant b) else Inl TypeError)"

definition dt_sub :: "datetime \<Rightarrow> datetime \<Rightarrow> pyerror + int" where
  \<comment> \<open>\<^verbatim>\<open>a - b\<close>: the \<^verbatim>\<open>timedelta\<close>, as its total of microseconds\<close>
  "dt_sub a b = (if comparable a b then Inr (instant a - instant b) else Inl TypeError)"

definition td_days :: "int \<Rightarrow> int" where
  \<comment> \<open>\<^verbatim>\<open>.days\<close> of a normalised \<^verbatim>\<open>timedelta\<close>\<close>
  "td_days us = us div 86400000000"

definition td_total_seconds :: "int \<Rightarrow> rat" where
  "td_total_seconds us = of_int us / 1000000"

fun min_from :: "datetime \<Rightarrow> datetime list \<Rightarrow> pyerror + datetime" where
  "min_from cur [] = Inr cur"
| "min_from cur (x # xs) =
     (case dt_lt x cur of Inl e \<Rightarrow> Inl e | Inr b \<Rightarrow> min_from (if b then x else cur) xs)"

fun max_from :: "datetime \<Rightarrow> datetime list \<Rightarrow> pyerror + datetime" where
  "max_from cur [] = Inr cur"
| "max_from cur (x # xs) =
     (case dt_lt cur x of Inl e \<Rightarrow> Inl e | Inr b \<Rightarrow> max_from (if b then x else cur) xs)"

fun py_min :: "datetime list \<Rightarrow> pyerror + datetime" where
  \<comment> \<open>\<^verbatim>\<open>min(timestamps)\<close>: the first smallest item\<close>
  "py_min [] = Inl ValueError"
| "py_min (x # xs) = min_from x xs"

fun py_max :: "datetime list \<Rightarrow> pyerror + datetime" where
  \<comment> \<open>\<^verbatim>\<open>max(timestamps)\<close>: the first largest item\<close>
  "py_max [] = Inl ValueError"
| "py_max (x # xs) = max_from x xs"

fun max_key_from :: "'k \<times> nat \<Rightarrow> ('k \<times> nat) list \<Rightarrow> 'k" where
  "max_key_from (k, c) [] = k"
| "max_key_from (k, c) ((k', c') # d) = max_key_from (if c < c' then (k', c') else (k, c)) d"

fun py_max_key :: "('k \<times> nat) list \<Rightarrow> pyerror + 'k" where
  \<comment> \<open>\<^verbatim>\<open>max(d, key=d.get)\<close>: the first key, in insertion order, with the largest count\<close>
  "py_max_key [] = Inl ValueError"
| "py_max_key (p # d) = Inr (max_key_from p d)"

definition py_index :: "'a list \<Rightarrow> nat \<Rightarrow> pyerror + 'a" where
  \<comment> \<open>\<^verbatim>\<open>xs[i]\<close> for a non-negative index\<close>
  "py_index xs i = (if i < length xs then Inr (xs ! i) else Inl IndexError)"

fun largest :: "rat \<Rightarrow> rat list \<Rightarrow> rat" where
  \<comment> \<open>\<^verbatim>\<open>max\<close> of a non-empty list of floats, from its first item on\<close>
  "largest m [] = m"
| "largest m (x # xs) = largest (if m < x then x else m) xs"

fun smallest :: "rat \<Rightarrow> rat list \<Rightarrow> rat" where
  \<comment> \<open>\<^verbatim>\<open>min\<close> of a non-empty list of floats, from its first item on\<close>
  "smallest m [] = m"
| "smallest m (x # xs) = smallest (if x < m then x else m) xs"

section \<open>Basic statistics\<close>

definition filled_orders :: "row list \<Rightarrow> row list" where
  "filled_orders orders = filter (\<lambda>r. r ''ordStatus'' = Some ''Filled'') orders"

definition canceled_orders :: "row list \<Rightarrow> row list" where
  "canceled_orders orders = filter (\<lambda>r. r ''ordStatus'' = Some ''Canceled'') orders"

definition order_types :: "row list \<Rightarrow> (string \<times> nat) list" where
  "order_types orders = counts (map (\<lambda>r. row_get r ''ordType'' ''Unknown'') orders)"

definition fill_rate :: "row list \<Rightarrow> pynum" where
  "fill_rate orders =
     (let total_orders = length orders
      in if total_orders > 0
         then py_round (PFloat (of_nat (length (filled_orders orders)) / of_nat total_orders * 100)) 2
         else PInt 0)"

definition basic_stats :: "row list \<Rightarrow> pydict" where
  "basic_stats orders =
     [(VStr ''total_orders'', VNum (PInt (int (length orders)))),
      (VStr ''filled_orders'', VNum (PInt (int (length (filled_orders orders))))),
      (VStr ''canceled_orders'', VNum (PInt (int (length (canceled_orders orders))))),
      (VStr ''fill_rate'', VNum (fill_rate orders)),
      (VStr ''order_types'', VDict (str_keys (order_types orders)))]"

section \<open>Trading time analysis\<close>

definition parse_timestamps :: "(string \<Rightarrow> datetime option) \<Rightarrow> row list \<Rightarrow> datetime list" where
  \<comment> \<open>the loop with \<^verbatim>\<open>try\<close>/\<^verbatim>\<open>except: pass\<close>: a row whose timestamp does not parse is skipped\<close>
  "parse_timestamps fromisoformat filled =
     List.map_filter (\<lambda>r. fromisoformat (replace_Z (row_get r ''timestamp'' []))) filled"

definition timestamps :: "(string \<Rightarrow> datetime option) \<Rightarrow> row list \<Rightarrow> datetime list option" where
  \<comment> \<open>the local variable \<^verbatim>\<open>timestamps\<close>: assigned only under \<^verbatim>\<open>if filled_orders:\<close>\<close>
  "timestamps fromisoformat orders =
     (if filled_orders orders \<noteq> [] then Some (parse_timestamps fromisoformat (filled_orders orders))
      else None)"

definition weekday_names :: "string list" where
  "weekday_names = [''Mon'', ''Tue'', ''Wed'', ''Thu'', ''Fri'', ''Sat'', ''Sun'']"

definition trading_patterns :: "datetime list \<Rightarrow> pyerror + pydict" where
  "trading_patterns ts =
     (let hour_distribution = counts (map hour ts);
          weekday_distribution = counts (map weekday ts)
      in case py_max_key hour_distribution of Inl e \<Rightarrow> Inl e | Inr most_active_hour \<Rightarrow>
         (case py_max_key weekday_distribution of Inl e \<Rightarrow> Inl e | Inr most_active_day \<Rightarrow>
         (case py_index weekday_names most_active_day of Inl e \<Rightarrow> Inl e | Inr day_name \<Rightarrow>
            Inr [(VStr ''hour_distribution'', VDict (int_keys hour_distribution)),
                 (VStr ''weekday_distribution'', VDict (int_keys weekday_distribution)),
                 (VStr ''most_active_hour'', VNum (PInt (int most_active_hour))),
                 (VStr ''most_active_day'', VStr day_name)])))"

definition set_trading_patterns :: "datetime list option \<Rightarrow> pydict \<Rightarrow> pyerror + pydict" where
  \<comment> \<open>the trading time section: nothing is assigned without a parsed timestamp\<close>
  "set_trading_patterns tss profile =
     (case tss of
        None \<Rightarrow> Inr profile
      | Some [] \<Rightarrow> Inr profile
      | Some (t # ts) \<Rightarrow>
          bind_result (trading_patterns (t # ts))
            (\<lambda>g. Inr (dict_set profile (VStr ''trading_patterns'') (VDict g))))"

section \<open>Risk preference\<close>

definition order_sizes :: "(string \<Rightarrow> rat option) \<Rightarrow> row list \<Rightarrow> rat list" where
  \<comment> \<open>\<^verbatim>\<open>abs(float(o.get('orderQty', 0)))\<close>, kept when positive; a value that does not
      convert is skipped\<close>
  "order_sizes py_float filled =
     List.map_filter
       (\<lambda>r. case (case r ''orderQty'' of None \<Rightarrow> Some 0 | Some s \<Rightarrow> py_float s) of
               None \<Rightarrow> None
             | Some q \<Rightarrow> if \<bar>q\<bar> > 0 then Some \<bar>q\<bar> else None)
       filled"

definition risk_level_of :: "int \<Rightarrow> string" where
  "risk_level_of risk_score =
     (if risk_score \<ge> 7 then ''High Risk'' else if risk_score \<ge> 4 then ''Medium Risk''
      else ''Low Risk'')"

definition risk_preference :: "rat \<Rightarrow> rat list \<Rightarrow> pydict" where
  \<comment> \<open>the group, built under \<^verbatim>\<open>if order_sizes:\<close> from the list \<open>s # rest\<close>\<close>
  "risk_preference s rest =
     (let sizes = s # rest;
          avg_order_size = sum_list sizes / of_nat (length sizes);
          max_order_size = largest s rest;
          min_order_size = smallest s rest;
          large_orders = filter (\<lambda>x. x > 10000) sizes;
          large_order_ratio = of_nat (length large_orders) / of_nat (length sizes) * 100;
          risk_score = clamp_score (py_int (large_order_ratio / 5 + 3))
      in [(VStr ''avg_order_size'', VNum (py_round (PFloat avg_order_size) 2)),
          (VStr ''max_order_size'', VNum (PFloat max_order_size)),
          (VStr ''min_order_size'', VNum (PFloat min_order_size)),
          (VStr ''large_order_ratio'', VNum (py_round (PFloat large_order_ratio) 2)),
          (VStr ''risk_score'', VNum (PInt risk_score)),
          (VStr ''risk_level'', VStr (risk_level_of risk_score))])"

definition set_risk_preference :: "(string \<Rightarrow> rat option) \<Rightarrow> row list \<Rightarrow> pydict \<Rightarrow> pydict" where
  \<comment> \<open>the risk section: the group is assigned only when a size was collected\<close>
  "set_risk_preference py_float orders profile =
     (case order_sizes py_float (filled_orders orders) of
        [] \<Rightarrow> profile
      | s # rest \<Rightarrow> dict_set profile (VStr ''risk_preference'') (VDict (risk_preference s rest)))"

section \<open>Trading frequency\<close>

fun gaps :: "datetime list \<Rightarrow> rat list" where
  \<comment> \<open>\<^verbatim>\<open>(sorted_ts[i] - sorted_ts[i-1]).total_seconds() / 60\<close> for \<open>i\<close> from 1\<close>
  "gaps (a # b # ts) = td_total_seconds (instant b - instant a) / 60 # gaps (b # ts)"
| "gaps ts = []"

definition frequency_level_of :: "int \<Rightarrow> string" where
  "frequency_level_of frequency_score =
     (if frequency_score \<ge> 7 then ''High Frequency''
      else if frequency_score \<ge> 4 then ''Medium Frequency'' else ''Low Frequency'')"

text \<open>
  The frequency section for a list of at least two timestamps. It returns the group and
  the local variable \<^verbatim>\<open>daily_trades\<close>. \<^verbatim>\<open>min\<close> compares every item with the running
  minimum, so it raises on any list that mixes naive and aware values; once it has
  returned, all items compare, \<^verbatim>\<open>sorted\<close> is the stable sort by \<open>instant\<close> and the
  differences of neighbours are differences of \<open>instant\<close>.
\<close>

definition trading_frequency :: "nat \<Rightarrow> datetime list \<Rightarrow> pyerror + (pydict \<times> rat)" where
  "trading_frequency n_filled ts =
     (case py_min ts of Inl e \<Rightarrow> Inl e | Inr first_trade \<Rightarrow>
     (case py_max ts of Inl e \<Rightarrow> Inl e | Inr last_trade \<Rightarrow>
     (case dt_sub last_trade first_trade of Inl e \<Rightarrow> Inl e | Inr delta \<Rightarrow>
        (let trading_days = (if td_days delta = 0 then 1 else td_days delta);
             daily_trades = of_nat n_filled / of_int trading_days;
             sorted_ts = sort_key instant ts;
             intervals = filter (\<lambda>i. i > 0 \<and> i < 60 * 24 * 7) (gaps sorted_ts);
             avg_interval = (if intervals \<noteq> []
                             then PFloat (sum_list intervals / of_nat (length intervals))
                             else PInt 0);
             frequency_score = clamp_score (py_int (daily_trades / 5))
         in Inr ([(VStr ''total_trading_days'', VNum (PInt trading_days)),
                  (VStr ''daily_avg_trades'', VNum (py_round (PFloat daily_trades) 2)),
                  (VStr ''avg_trade_interval_minutes'', VNum (py_round avg_interval 2)),
                  (VStr ''frequency_score'', VNum (PInt frequency_score)),
                  (VStr ''frequency_level'', VStr (frequency_level_of frequency_score))],
                 daily_trades)))))"

definition set_trading_frequency ::
  "row list \<Rightarrow> datetime list option \<Rightarrow> pydict \<Rightarrow> pyerror + (pydict \<times> rat option)" where
  \<comment> \<open>line 136 reads \<^verbatim>\<open>timestamps\<close>, bound or not; the second component is the local
      variable \<^verbatim>\<open>daily_trades\<close>, bound only inside the branch\<close>
  "set_trading_frequency orders tss profile =
     (case tss of
        None \<Rightarrow> Inl (UnboundLocalError ''timestamps'')
      | Some ts \<Rightarrow>
          if ts \<noteq> [] \<and> length ts \<ge> 2
          then bind_result (trading_frequency (length (filled_orders orders)) ts)
                 (\<lambda>(g, daily_trades).
                    Inr (dict_set profile (VStr ''trading_frequency'') (VDict g), Some daily_trades))
          else Inr (profile, None))"

section \<open>Discipline scores\<close>

definition limit_ratio :: "row list \<Rightarrow> pynum" where
  "limit_ratio orders =
     (let limit_orders = dict_get (order_types orders) ''Limit'' 0;
          market_orders = dict_get (order_types orders) ''Market'' 0;
          total_lm = limit_orders + market_orders
      in if total_lm > 0 then PFloat (of_nat limit_orders / of_nat total_lm * 100) else PInt 0)"

definition cancel_ratio :: "row list \<Rightarrow> pynum" where
  "cancel_ratio orders =
     (let total_orders = length orders
      in if total_orders > 0
         then PFloat (of_nat (length (canceled_orders orders)) / of_nat total_orders * 100)
         else PInt 0)"

definition discipline_scores :: "row list \<Rightarrow> pydict" where
  "discipline_scores orders =
     (let discipline_score = clamp_score (py_int (num_val (limit_ratio orders) / 10));
          patience_score = clamp_score (py_int (10 - num_val (cancel_ratio orders) / 5))
      in [(VStr ''limit_order_ratio'', VNum (py_round (limit_ratio orders) 2)),
          (VStr ''cancel_ratio'', VNum (py_round (cancel_ratio orders) 2)),
          (VStr ''discipline_score'', VNum (PInt discipline_score)),
          (VStr ''patience_score'', VNum (PInt patience_score)),
          (VStr ''discipline_level'',
             VStr (if discipline_score \<ge> 7 then ''Highly Disciplined''
                   else if discipline_score \<ge> 4 then ''Moderately Disciplined''
                   else ''Needs Improvement'')),
          (VStr ''patience_level'',
             VStr (if patience_score \<ge> 7 then ''Very Patient''
                   else if patience_score \<ge> 4 then ''Moderately Patient''
                   else ''Impulsive''))])"

section \<open>PnL analysis\<close>

definition pnl_entries :: "row list \<Rightarrow> row list" where
  "pnl_entries wallet_history =
     filter (\<lambda>w. w ''transactType'' = Some ''RealisedPNL'') wallet_history"

definition pnl_amounts :: "(string \<Rightarrow> rat option) \<Rightarrow> row list \<Rightarrow> rat list" where
  \<comment> \<open>\<^verbatim>\<open>float(entry.get('amount', 0)) / 100000000\<close>; a value that does not convert is skipped\<close>
  "pnl_amounts py_float entries =
     List.map_filter
       (\<lambda>entry. case (case entry ''amount'' of None \<Rightarrow> Some 0 | Some s \<Rightarrow> py_float s) of
                   None \<Rightarrow> None
                 | Some a \<Rightarrow> Some (a / 100000000))
       entries"

definition inf_sentinel :: string where
  \<comment> \<open>the string literal of line 222, as the bytes of its UTF-8 encoding\<close>
  "inf_sentinel = [CHR 0xC3, CHR 0xA2, CHR 0xCB, CHR 0x86]"

definition winning_trades :: "rat list \<Rightarrow> rat list" where
  "winning_trades amounts = filter (\<lambda>p. p > 0) amounts"

definition losing_trades :: "rat list \<Rightarrow> rat list" where
  "losing_trades amounts = filter (\<lambda>p. p < 0) amounts"

definition avg_win :: "rat list \<Rightarrow> pynum" where
  "avg_win amounts =
     (if winning_trades amounts \<noteq> []
      then PFloat (sum_list (winning_trades amounts) / of_nat (length (winning_trades amounts)))
      else PInt 0)"

definition avg_loss :: "rat list \<Rightarrow> pynum" where
  "avg_loss amounts =
     (if losing_trades amounts \<noteq> []
      then PFloat \<bar>sum_list (losing_trades amounts) / of_nat (length (losing_trades amounts))\<bar>
      else PInt 0)"

definition profit_factor :: "rat list \<Rightarrow> extfloat" where
  "profit_factor amounts =
     (if num_val (avg_loss amounts) > 0
      then Fin (num_val (avg_win amounts) / num_val (avg_loss amounts))
      else PosInf)"

definition pnl_analysis :: "rat list \<Rightarrow> pydict" where
  \<comment> \<open>the group, built under \<^verbatim>\<open>if pnl_amounts:\<close>\<close>
  "pnl_analysis amounts =
     (let total_pnl = sum_list amounts;
          win_rate = (if amounts \<noteq> []
                      then PFloat (of_nat (length (winning_trades amounts))
                                     / of_nat (length amounts) * 100)
                      else PInt 0)
      in [(VStr ''total_pnl_btc'', VNum (py_round (PFloat total_pnl) 8)),
          (VStr ''total_trades'', VNum (PInt (int (length amounts)))),
          (VStr ''winning_trades'', VNum (PInt (int (length (winning_trades amounts))))),
          (VStr ''losing_trades'', VNum (PInt (int (length (losing_trades amounts))))),
          (VStr ''win_rate'', VNum (py_round win_rate 2)),
          (VStr ''avg_win_btc'', VNum (py_round (avg_win amounts) 8)),
          (VStr ''avg_loss_btc'', VNum (py_round (avg_loss amounts) 8)),
          (VStr ''profit_factor'',
             (case profit_factor amounts of
                Fin x \<Rightarrow> VNum (py_round (PFloat x) 2)
              | PosInf \<Rightarrow> VStr inf_sentinel))])"

definition set_pnl_analysis :: "(string \<Rightarrow> rat option) \<Rightarrow> row list \<Rightarrow> pydict \<Rightarrow> pydict" where
  \<comment> \<open>the PnL section: the key is assigned only when an amount was collected\<close>
  "set_pnl_analysis py_float wallet_history profile =
     (if pnl_entries wallet_history \<noteq> []
      then (let amounts = pnl_amounts py_float (pnl_entries wallet_history)
            in if amounts \<noteq> []
               then dict_set profile (VStr ''pnl_analysis'') (VDict (pnl_analysis amounts))
               else profile)
      else profile)"

section \<open>Summary\<close>

definition get_group :: "pydict \<Rightarrow> string \<Rightarrow> pyerror + pydict" where
  \<comment> \<open>\<^verbatim>\<open>profile.get(g, {})\<close>, on which \<^verbatim>\<open>.get\<close> is called next: a value that is no
      mapping has no such method\<close>
  "get_group profile g =
     (case dict_get profile (VStr g) (VDict []) of VDict d \<Rightarrow> Inr d | _ \<Rightarrow> Inl AttributeError)"

definition get_level :: "pydict \<Rightarrow> string \<Rightarrow> string \<Rightarrow> pyerror + string" where
  \<comment> \<open>\<^verbatim>\<open>profile.get(g, {}).get(k, "Unknown")\<close>, used as a string\<close>
  "get_level profile g k =
     bind_result (get_group profile g)
       (\<lambda>d. case dict_get d (VStr k) (VStr ''Unknown'') of
               VStr s \<Rightarrow> Inr s
             | _ \<Rightarrow> Inl TypeError)"

definition get_score :: "pydict \<Rightarrow> string \<Rightarrow> string \<Rightarrow> pyerror + int" where
  \<comment> \<open>\<^verbatim>\<open>profile.get(g, {}).get(k, 5)\<close>, used as an integer\<close>
  "get_score profile g k =
     bind_result (get_group profile g)
       (\<lambda>d. case dict_get d (VStr k) (VNum (PInt 5)) of
               VNum (PInt n) \<Rightarrow> Inr n
             | _ \<Rightarrow> Inl TypeError)"

definition trader_type :: "string \<Rightarrow> string \<Rightarrow> string" where
  \<comment> \<open>the \<^verbatim>\<open>if\<close>/\<^verbatim>\<open>elif\<close> chain of lines 231 to 242\<close>
  "trader_type freq_level risk_level =
     (if py_in ''High'' freq_level \<and> py_in ''High'' risk_level then ''Aggressive Day Trader''
      else if py_in ''High'' freq_level \<and> py_in ''Low'' risk_level then ''Conservative Day Trader''
      else if py_in ''Low'' freq_level \<and> py_in ''High'' risk_level then ''Bold Swing Trader''
      else if py_in ''Low'' freq_level \<and> py_in ''Low'' risk_level
        then ''Conservative Value Investor''
      else if py_in ''Medium'' freq_level then ''Balanced Short-term Trader''
      else ''Comprehensive Trader'')"

definition advice :: "row list \<Rightarrow> rat \<Rightarrow> int \<Rightarrow> pyval" where
  "advice orders daily_trades risk_score =
     VList
       [VStr (if num_val (limit_ratio orders) > 70
              then ''Continue maintaining limit order trading habits to improve execution efficiency''
              else ''Consider increasing limit order usage to reduce slippage costs''),
        VStr (if daily_trades < 50
              then ''Trading rhythm is stable, maintain current strategy''
              else ''Consider reducing trading frequency to improve quality per trade''),
        VStr (if risk_score < 5
              then ''Risk control is good''
              else ''Pay attention to controlling position sizes and diversifying risk'')]"

text \<open>
  The summary section. The entries of the mapping are evaluated in the order they are
  written, so the read of \<^verbatim>\<open>daily_trades\<close> in the advice comes last.
\<close>

definition summary :: "pydict \<Rightarrow> row list \<Rightarrow> rat option \<Rightarrow> pyerror + pydict" where
  "summary profile orders daily_trades =
     bind_result (get_level profile ''risk_preference'' ''risk_level'') (\<lambda>risk_level.
     bind_result (get_level profile ''trading_frequency'' ''frequency_level'') (\<lambda>freq_level.
     bind_result (get_level profile ''discipline_scores'' ''discipline_level'') (\<lambda>discipline_level.
     bind_result (get_score profile ''risk_preference'' ''risk_score'') (\<lambda>risk_score.
     bind_result (get_score profile ''trading_frequency'' ''frequency_score'') (\<lambda>frequency_score.
     bind_result (get_score profile ''discipline_scores'' ''discipline_score'') (\<lambda>discipline_score.
     bind_result (get_score profile ''discipline_scores'' ''patience_score'') (\<lambda>patience_score.
     bind_result (case daily_trades of
                    None \<Rightarrow> Inl (UnboundLocalError ''daily_trades'')
                  | Some d \<Rightarrow> Inr d) (\<lambda>d.
       Inr [(VStr ''trader_type'', VStr (trader_type freq_level risk_level)),
            (VStr ''risk_level'', VStr risk_level),
            (VStr ''frequency_level'', VStr freq_level),
            (VStr ''discipline_level'', VStr discipline_level),
            (VStr ''overall_score'',
               VNum (py_round
                 (PFloat (of_int (risk_score + frequency_score + discipline_score + patience_score)
                            / 4)) 1)),
            (VStr ''advice'', advice orders d risk_score)]))))))))"

section \<open>The analysis\<close>

definition empty_profile :: pydict where
  \<comment> \<open>the initial value of \<^verbatim>\<open>profile\<close>, lines 45 to 52\<close>
  "empty_profile =
     [(VStr ''basic_stats'', VDict []),
      (VStr ''risk_preference'', VDict []),
      (VStr ''trading_frequency'', VDict []),
      (VStr ''discipline_scores'', VDict []),
      (VStr ''trading_patterns'', VDict []),
      (VStr ''summary'', VDict [])]"

definition analyze_trader_profile ::
  "(string \<Rightarrow> datetime option) \<Rightarrow> (string \<Rightarrow> rat option) \<Rightarrow>
     row list \<Rightarrow> row list \<Rightarrow> row list \<Rightarrow> pyerror + pydict" where
  "analyze_trader_profile fromisoformat py_float orders wallet_history executions =
     (let profile = dict_set empty_profile (VStr ''basic_stats'') (VDict (basic_stats orders));
          tss = timestamps fromisoformat orders
      in bind_result (set_trading_patterns tss profile) (\<lambda>profile.
         bind_result (set_trading_frequency orders tss (set_risk_preference py_float orders profile))
           (\<lambda>(profile, daily_trades).
              (let profile = dict_set profile (VStr ''discipline_scores'')
                               (VDict (discipline_scores orders));
                   profile = set_pnl_analysis py_float wallet_history profile
               in bind_result (summary profile orders daily_trades)
                    (\<lambda>s. Inr (dict_set profile (VStr ''summary'') (VDict s)))))))"

section \<open>Reading a profile, and example data\<close>

fun lookup_path :: "pyval \<Rightarrow> string list \<Rightarrow> pyval option" where
  \<comment> \<open>the entry under a path of keys, \<open>None\<close> when a key on the way is absent\<close>
  "lookup_path v [] = Some v"
| "lookup_path (VDict d) (k # ks) =
     (case map_of d (VStr k) of None \<Rightarrow> None | Some v \<Rightarrow> lookup_path v ks)"
| "lookup_path v (k # ks) = None"

definition result_entry :: "pyerror + pydict \<Rightarrow> string list \<Rightarrow> pyerror + pyval option" where
  \<comment> \<open>the same on the outcome of a run: the exception, or the entry of the returned profile\<close>
  "result_entry r path = (case r of Inl e \<Rightarrow> Inl e | Inr p \<Rightarrow> Inr (lookup_path (VDict p) path))"

definition level_or_unknown :: "pydict \<Rightarrow> string \<Rightarrow> string \<Rightarrow> string" where
  \<comment> \<open>a level as the decision table reads it: \<^verbatim>\<open>"Unknown"\<close> when the group has no such entry\<close>
  "level_or_unknown p g k =
     (case lookup_path (VDict p) [g, k] of Some (VStr s) \<Rightarrow> s | _ \<Rightarrow> ''Unknown'')"

text \<open>
  The decision table of the specification, as rows (substring required of the frequency
  level, substring required of the risk level if any, label), read from the top; the
  first row that matches gives the label, and no row gives \<^verbatim>\<open>"Comprehensive Trader"\<close>.
\<close>

definition decision_table :: "(string \<times> string option \<times> string) list" where
  "decision_table =
     [(''High'', Some ''High'', ''Aggressive Day Trader''),
      (''High'', Some ''Low'', ''Conservative Day Trader''),
      (''Low'', Some ''High'', ''Bold Swing Trader''),
      (''Low'', Some ''Low'', ''Conservative Value Investor''),
      (''Medium'', None, ''Balanced Short-term Trader'')]"

fun first_match :: "(string \<times> string option \<times> string) list \<Rightarrow> string \<Rightarrow> string \<Rightarrow> string" where
  "first_match [] freq risk = ''Comprehensive Trader''"
| "first_match ((f, r, label) # rows) freq risk =
     (if py_in f freq \<and> (case r of None \<Rightarrow> True | Some r' \<Rightarrow> py_in r' risk) then label
      else first_match rows freq risk)"

text \<open>
  Example inputs. \<open>example_fromisoformat\<close> and \<open>example_float\<close> give the values of
  \<^verbatim>\<open>datetime.fromisoformat\<close> and \<^verbatim>\<open>float\<close> at the strings the examples use and
  \<open>None\<close> elsewhere; 2024-01-01 is a Monday.
\<close>

definition time_a :: datetime where
  "time_a = \<lparr>year = 2024, month = 1, day = 1, hour = 10, minute = 0, second = 0,
              microsecond = 0, tzinfo = Some 0\<rparr>"

definition time_b :: datetime where
  "time_b = \<lparr>year = 2024, month = 1, day = 1, hour = 10, minute = 10, second = 0,
              microsecond = 0, tzinfo = Some 0\<rparr>"

definition example_fromisoformat :: "string \<Rightarrow> datetime option" where
  "example_fromisoformat s =
     (if s = ''2024-01-01T10:00:00+00:00'' then Some time_a
      else if s = ''2024-01-01T10:10:00+00:00'' then Some time_b
      else None)"

definition example_float :: "string \<Rightarrow> rat option" where
  "example_float s =
     (if s = ''100'' then Some 100
      else if s = ''20000'' then Some 20000
      else if s = ''0'' then Some 0
      else if s = ''-5000'' then Some (- 5000)
      else None)"

definition order_a :: row where
  "order_a = map_of
     [(''ordStatus'', ''Filled''), (''ordType'', ''Limit''), (''orderQty'', ''100''),
      (''timestamp'', ''2024-01-01T10:00:00Z'')]"

definition order_b :: row where
  "order_b = map_of
     [(''ordStatus'', ''Filled''), (''ordType'', ''Market''), (''orderQty'', ''20000''),
      (''timestamp'', ''2024-01-01T10:10:00Z'')]"

definition order_c :: row where
  \<comment> \<open>filled, with a timestamp and no size\<close>
  "order_c = map_of [(''ordStatus'', ''Filled''), (''timestamp'', ''2024-01-01T10:00:00Z'')]"

definition order_d :: row where
  \<comment> \<open>filled, with a timestamp and a size of zero\<close>
  "order_d = map_of
     [(''ordStatus'', ''Filled''), (''orderQty'', ''0''), (''timestamp'', ''2024-01-01T10:10:00Z'')]"

definition order_e :: row where
  \<comment> \<open>filled, with a timestamp that does not parse\<close>
  "order_e = map_of
     [(''ordStatus'', ''Filled''), (''ordType'', ''Limit''), (''orderQty'', ''100''),
      (''timestamp'', ''yesterday'')]"


definition pnl_win :: row where
  "pnl_win = map_of [(''transactType'', ''RealisedPNL''), (''amount'', ''20000'')]"

definition pnl_loss :: row where
  "pnl_loss = map_of [(''transactType'', ''RealisedPNL''), (''amount'', ''-5000'')]"

definition funding :: row where
  "funding = map_of [(''transactType'', ''Funding''), (''amount'', ''100'')]"

definition example_orders :: "row list" where
  "example_orders = [order_a, order_b]"

definition example_wallet :: "row list" where
  "example_wallet = [pnl_win, pnl_loss, funding]"

definition example_run :: "pyerror + pydict" where
  \<comment> \<open>two filled orders ten minutes apart, one winning and one losing PnL entry\<close>
  "example_run =
     analyze_trader_profile example_fromisoformat example_float example_orders example_wallet []"

definition sizeless_run :: "pyerror + pydict" where
  \<comment> \<open>two filled orders with timestamps and no usable size, no PnL entry\<close>
  "sizeless_run =
     analyze_trader_profile example_fromisoformat example_float [order_c, order_d] [funding] []"

fun is_score :: "pyval \<Rightarrow> bool" where
  \<comment> \<open>an integer from 1 to 10\<close>
  "is_score (VNum (PInt n)) = (1 \<le> n \<and> n \<le> 10)"
| "is_score v = False"

definition pre_summary ::
  "(string \<Rightarrow> rat option) \<Rightarrow> row list \<Rightarrow> row list \<Rightarrow> pydict \<Rightarrow> pydict \<Rightarrow> pydict" where
  \<comment> \<open>the value of \<^verbatim>\<open>profile\<close> when the summary section starts, on a run whose trading
      pattern group is \<open>tp\<close> and whose trading frequency group is \<open>tf\<close>\<close>
  "pre_summary fl orders wh tp tf =
     set_pnl_analysis fl wh
       (dict_set
         (dict_set
           (set_risk_preference fl orders
             (dict_set
               (dict_set empty_profile (VStr ''basic_stats'') (VDict (basic_stats orders)))
               (VStr ''trading_patterns'') (VDict tp)))
           (VStr ''trading_frequency'') (VDict tf))
         (VStr ''discipline_scores'') (VDict (discipline_scores orders)))"

section \<open>Properties\<close>

subsection \<open>Counting\<close>

lemma sum_dict_set:
  "sum_list (map snd (dict_set d k v)) + dict_get d k 0 = sum_list (map snd d) + (v::nat)"
  by (induction d) (auto simp: dict_get_def)

lemma sum_incr: "sum_list (map snd (incr d k)) = Suc (sum_list (map snd d))"
  using sum_dict_set [of d k "dict_get d k 0 + 1"] by (simp add: incr_def)

lemma sum_foldl_incr:
  "sum_list (map snd (foldl incr d ks)) = sum_list (map snd d) + length ks"
  by (induction ks arbitrary: d) (simp_all add: sum_incr)

lemma sum_counts: "sum_list (map snd (counts ks)) = length ks"
  by (simp add: counts_def sum_foldl_incr)

subsection \<open>Sequencing and dictionaries\<close>

lemma bind_result_simps [simp]:
  "bind_result (Inl e) f = Inl e"
  "bind_result (Inr x) f = f x"
  by (simp_all add: bind_result_def)

lemma bind_result_Inr:
  "bind_result m f = Inr y \<longleftrightarrow> (\<exists>x. m = Inr x \<and> f x = Inr y)"
  by (cases m) simp_all

lemma map_of_dict_set:
  "map_of (dict_set d k v) k' = (if k' = k then Some v else map_of d k')"
  by (induction d) auto

lemma keys_dict_set: "fst ` set (dict_set d k v) = insert k (fst ` set d)"
  by (induction d) force+

lemma keys_foldl_incr: "fst ` set (foldl incr d ks) = fst ` set d \<union> set ks"
proof (induction ks arbitrary: d)
  case Nil
  show ?case by simp
next
  case (Cons k ks)
  have "fst ` set (foldl incr (incr d k) ks) = fst ` set (incr d k) \<union> set ks"
    by (rule Cons.IH)
  also have "fst ` set (incr d k) = insert k (fst ` set d)"
    by (simp only: incr_def keys_dict_set)
  finally show ?case by simp
qed

lemma keys_counts: "fst ` set (counts ks) = set ks"
  by (simp add: counts_def keys_foldl_incr)

lemma max_key_from_mem: "max_key_from (k, c) d \<in> insert k (fst ` set d)"
proof (induction d arbitrary: k c)
  case Nil
  show ?case by simp
next
  case (Cons q d)
  obtain k' c' where q: "q = (k', c')" by (cases q)
  show ?case
    using Cons.IH [of k' c'] Cons.IH [of k c] by (auto simp: q)
qed

lemma py_max_key_counts:
  assumes "ks \<noteq> []"
  shows "\<exists>k. py_max_key (counts ks) = Inr k \<and> k \<in> set ks"
proof (cases "counts ks")
  case Nil
  with keys_counts [of ks] assms show ?thesis by simp
next
  case (Cons q d)
  obtain k c where q: "q = (k, c)" by (cases q)
  from Cons q keys_counts [of ks] have "insert k (fst ` set d) = set ks" by simp
  with max_key_from_mem [of k c d] have "max_key_from (k, c) d \<in> set ks" by simp
  with Cons q show ?thesis by simp
qed

lemma filled_canceled_le:
  "length (filled_orders orders) + length (canceled_orders orders) \<le> length orders"
  by (induction orders) (auto simp: filled_orders_def canceled_orders_def)

subsection \<open>Scores and timestamps\<close>

lemma clamp_score_range [simp]: "1 \<le> clamp_score n" "clamp_score n \<le> 10"
  by (simp_all add: clamp_score_def)

lemma round_half_even_of_int [simp]: "round_half_even (of_int n) = n"
  by (simp add: round_half_even_def)


lemma weekday_less: "weekday t < 7"
  by (simp add: weekday_def)

lemma comparable_refl [simp]: "comparable a a"
  by (simp add: comparable_def)

lemma comparable_sym: "comparable a b \<Longrightarrow> comparable b a"
  by (auto simp: comparable_def)

lemma comparable_trans: "comparable a b \<Longrightarrow> comparable b c \<Longrightarrow> comparable a c"
  by (auto simp: comparable_def)

lemma min_from_total:
  "\<forall>x\<in>set xs. comparable x cur \<Longrightarrow> \<exists>m. min_from cur xs = Inr m \<and> m \<in> set (cur # xs)"
proof (induction xs arbitrary: cur)
  case Nil
  show ?case by simp
next
  case (Cons x xs)
  let ?c = "if instant x < instant cur then x else cur"
  from Cons.prems have xc: "comparable x cur" by simp
  have "\<forall>y\<in>set xs. comparable y ?c"
    using Cons.prems by (auto intro: comparable_trans comparable_sym)
  from Cons.IH [OF this] obtain m where "min_from ?c xs = Inr m" "m \<in> set (?c # xs)"
    by blast
  with xc show ?case by (auto simp: dt_lt_def split: if_splits)
qed

lemma max_from_total:
  "\<forall>x\<in>set xs. comparable x cur \<Longrightarrow> \<exists>m. max_from cur xs = Inr m \<and> m \<in> set (cur # xs)"
proof (induction xs arbitrary: cur)
  case Nil
  show ?case by simp
next
  case (Cons x xs)
  let ?c = "if instant cur < instant x then x else cur"
  from Cons.prems have xc: "comparable cur x" by (simp add: comparable_sym)
  have "\<forall>y\<in>set xs. comparable y ?c"
    using Cons.prems by (auto intro: comparable_trans comparable_sym)
  from Cons.IH [OF this] obtain m where "max_from ?c xs = Inr m" "m \<in> set (?c # xs)"
    by blast
  with xc show ?case by (auto simp: dt_lt_def split: if_splits)
qed

lemma min_from_comparable:
  "min_from cur xs = Inr m \<Longrightarrow> \<forall>x\<in>set xs. comparable x cur"
proof (induction xs arbitrary: cur)
  case Nil
  show ?case by simp
next
  case (Cons x xs)
  from Cons.prems have xc: "comparable x cur"
    by (auto simp: dt_lt_def split: if_splits)
  with Cons.prems have "min_from (if instant x < instant cur then x else cur) xs = Inr m"
    by (simp add: dt_lt_def)
  from Cons.IH [OF this] have "\<forall>y\<in>set xs. comparable y (if instant x < instant cur then x else cur)" .
  with xc show ?case
    by (auto intro: comparable_trans split: if_splits)
qed

subsection \<open>The sections of the analysis\<close>

lemma trading_patterns_total:
  assumes "ts \<noteq> []"
  shows "\<exists>tp. trading_patterns ts = Inr tp"
proof -
  from assms py_max_key_counts [of "map hour ts"] obtain h where
    h: "py_max_key (counts (map hour ts)) = Inr h" by auto
  from assms py_max_key_counts [of "map weekday ts"] obtain w where
    w: "py_max_key (counts (map weekday ts)) = Inr w" "w \<in> set (map weekday ts)" by auto
  from w(2) have "w < 7" by (auto simp: weekday_less)
  then have "py_index weekday_names w = Inr (weekday_names ! w)"
    by (simp add: py_index_def weekday_names_def)
  with h w(1) show ?thesis
    by (simp add: trading_patterns_def Let_def)
qed

lemma trading_frequency_Inr:
  "trading_frequency n ts = Inr (tf, d) \<Longrightarrow>
     map_of tf (VStr ''frequency_score'') = Some (VNum (PInt (clamp_score (py_int (d / 5))))) \<and>
     map_of tf (VStr ''frequency_level'')
       = Some (VStr (frequency_level_of (clamp_score (py_int (d / 5)))))"
  by (auto simp: trading_frequency_def Let_def split: sum.splits)

lemma trading_frequency_total:
  assumes "ts \<noteq> []" and "\<forall>a\<in>set ts. \<forall>b\<in>set ts. comparable a b"
  shows "\<exists>tf d. trading_frequency n ts = Inr (tf, d)"
proof -
  from assms(1) obtain t ts' where ts: "ts = t # ts'" by (cases ts) auto
  with assms(2) have all: "\<forall>x\<in>set ts'. comparable x t" by simp
  from min_from_total [OF all] obtain lo where lo: "py_min ts = Inr lo" "lo \<in> set ts"
    by (auto simp: ts)
  from max_from_total [OF all] obtain hi where hi: "py_max ts = Inr hi" "hi \<in> set ts"
    by (auto simp: ts)
  from assms(2) lo(2) hi(2) have "comparable hi lo" by blast
  with lo(1) hi(1) show ?thesis
    by (simp add: trading_frequency_def dt_sub_def Let_def)
qed

lemma trading_frequency_comparable:
  assumes "trading_frequency n ts = Inr r"
  shows "\<forall>a\<in>set ts. \<forall>b\<in>set ts. comparable a b"
proof (cases ts)
  case Nil
  then show ?thesis by simp
next
  case (Cons t ts')
  from assms obtain lo where "py_min ts = Inr lo"
    by (auto simp: trading_frequency_def split: sum.splits)
  with Cons have "min_from t ts' = Inr lo" by simp
  from min_from_comparable [OF this] have "\<forall>x\<in>set ts. comparable x t"
    by (simp add: Cons)
  then show ?thesis
    by (blast intro: comparable_trans comparable_sym)
qed

lemma frequency_two_trades:
  assumes c: "comparable t1 t2" and gap: "\<bar>instant t2 - instant t1\<bar> = 600000000"
  shows "\<exists>tf d. trading_frequency n [t1, t2] = Inr (tf, d) \<and>
           map_of tf (VStr ''total_trading_days'') = Some (VNum (PInt 1)) \<and>
           map_of tf (VStr ''avg_trade_interval_minutes'') = Some (VNum (PFloat 10))"
proof (cases "instant t1 < instant t2")
  case True
  with gap have d: "instant t2 - instant t1 = 600000000" by linarith
  have r: "round_half_even 1000 = 1000"
    using round_half_even_of_int [of 1000] by simp
  show ?thesis
    using True c comparable_sym [OF c]
    by (simp add: trading_frequency_def dt_lt_def dt_sub_def d td_days_def td_total_seconds_def
        Let_def r)
next
  case False
  with gap have d: "instant t1 - instant t2 = 600000000" and lt: "instant t2 < instant t1"
    by linarith+
  have r: "round_half_even 1000 = 1000"
    using round_half_even_of_int [of 1000] by simp
  show ?thesis
    using False lt c comparable_sym [OF c]
    by (simp add: trading_frequency_def dt_lt_def dt_sub_def d td_days_def td_total_seconds_def
        Let_def r)
qed

lemma set_trading_patterns_Inr:
  "set_trading_patterns (Some ts) profile = Inr q \<Longrightarrow> ts \<noteq> [] \<Longrightarrow>
     \<exists>tp. trading_patterns ts = Inr tp \<and> q = dict_set profile (VStr ''trading_patterns'') (VDict tp)"
  by (cases ts) (auto simp: set_trading_patterns_def bind_result_Inr)

lemma set_trading_frequency_Inr:
  "set_trading_frequency orders tss profile = Inr (q, dt) \<Longrightarrow>
     (\<exists>ts. tss = Some ts \<and>
        (if 2 \<le> length ts
         then \<exists>tf d. trading_frequency (length (filled_orders orders)) ts = Inr (tf, d) \<and>
                q = dict_set profile (VStr ''trading_frequency'') (VDict tf) \<and> dt = Some d
         else q = profile \<and> dt = None))"
  by (cases tss) (auto simp: set_trading_frequency_def bind_result_Inr split: if_splits)

lemma summary_Inr_daily:
  "summary profile orders dt = Inr s \<Longrightarrow> \<exists>d. dt = Some d"
  by (cases dt) (auto simp: summary_def bind_result_Inr)

lemma summary_Inr:
  assumes "summary P orders dt = Inr s"
  shows "\<exists>rl fl. get_level P ''risk_preference'' ''risk_level'' = Inr rl \<and>
           get_level P ''trading_frequency'' ''frequency_level'' = Inr fl \<and>
           map_of s (VStr ''trader_type'') = Some (VStr (trader_type fl rl)) \<and>
           map_of s (VStr ''risk_level'') = Some (VStr rl) \<and>
           map_of s (VStr ''frequency_level'') = Some (VStr fl)"
  using assms by (auto simp: summary_def bind_result_Inr)

lemma lookup_path_group:
  assumes "get_group P g = Inr d"
  shows "lookup_path (VDict P) [g, k] = map_of d (VStr k)"
proof (cases "map_of P (VStr g)")
  case None
  with assms have "d = []" by (simp add: get_group_def dict_get_def)
  with None show ?thesis by simp
next
  case (Some v)
  with assms have "v = VDict d"
    by (simp add: get_group_def dict_get_def split: pyval.splits)
  with Some show ?thesis by (simp split: option.splits)
qed

lemma get_level_Inr:
  assumes "get_level P g k = Inr x"
  shows "x = level_or_unknown P g k"
proof -
  from assms obtain d where d: "get_group P g = Inr d"
    and x: "(case dict_get d (VStr k) (VStr ''Unknown'') of
               VStr s \<Rightarrow> Inr s | _ \<Rightarrow> Inl TypeError) = Inr x"
    by (auto simp: get_level_def bind_result_Inr)
  from x have "dict_get d (VStr k) (VStr ''Unknown'') = VStr x"
    by (simp split: pyval.splits)
  moreover have "level_or_unknown P g k =
      (case map_of d (VStr k) of Some (VStr s) \<Rightarrow> s | _ \<Rightarrow> ''Unknown'')"
    by (simp only: level_or_unknown_def lookup_path_group [OF d])
  ultimately show ?thesis
    by (simp add: dict_get_def split: option.splits)
qed

lemma trader_type_table: "trader_type f r = first_match decision_table f r"
  by (simp add: trader_type_def decision_table_def)

lemma pnl_amounts_Nil [simp]: "pnl_amounts fl [] = []"
  by (simp add: pnl_amounts_def)

lemma pre_summary_eq:
  "pre_summary fl orders wh tp tf =
     [(VStr ''basic_stats'', VDict (basic_stats orders)),
      (VStr ''risk_preference'',
         VDict (case order_sizes fl (filled_orders orders) of
                  [] \<Rightarrow> [] | s # rest \<Rightarrow> risk_preference s rest)),
      (VStr ''trading_frequency'', VDict tf),
      (VStr ''discipline_scores'', VDict (discipline_scores orders)),
      (VStr ''trading_patterns'', VDict tp),
      (VStr ''summary'', VDict [])]
     @ (if pnl_amounts fl (pnl_entries wh) = [] then []
        else [(VStr ''pnl_analysis'', VDict (pnl_analysis (pnl_amounts fl (pnl_entries wh))))])"
  by (simp add: pre_summary_def set_pnl_analysis_def set_risk_preference_def empty_profile_def
      Let_def split: list.splits)

lemma pre_summary_no_frequency:
  "set_pnl_analysis fl wh
     (dict_set
        (set_risk_preference fl orders
          (dict_set
            (dict_set empty_profile (VStr ''basic_stats'') (VDict (basic_stats orders)))
            (VStr ''trading_patterns'') (VDict tp)))
      (VStr ''discipline_scores'') (VDict (discipline_scores orders)))
   = pre_summary fl orders wh tp []"
  by (simp add: pre_summary_def set_risk_preference_def empty_profile_def split: list.splits)

lemma summary_total:
  assumes "trading_frequency n ts = Inr (tf, d)"
  shows "\<exists>s. summary (pre_summary fl orders wh tp tf) orders (Some d) = Inr s"
  by (simp add: summary_def get_level_def get_score_def get_group_def dict_get_def
      pre_summary_eq trading_frequency_Inr [OF assms] risk_preference_def discipline_scores_def
      Let_def split: list.splits)

lemma summary_unbound:
  "summary (pre_summary fl orders wh tp []) orders None = Inl (UnboundLocalError ''daily_trades'')"
  by (simp add: summary_def get_level_def get_score_def get_group_def dict_get_def
      pre_summary_eq risk_preference_def discipline_scores_def Let_def split: list.splits)

subsection \<open>When the analysis returns\<close>

lemma analyze_Inr:
  assumes "analyze_trader_profile fi fl orders wh ex = Inr p"
  shows "\<exists>ts tp tf d s.
           timestamps fi orders = Some ts \<and> 2 \<le> length ts \<and>
           trading_patterns ts = Inr tp \<and>
           trading_frequency (length (filled_orders orders)) ts = Inr (tf, d) \<and>
           summary (pre_summary fl orders wh tp tf) orders (Some d) = Inr s \<and>
           p = dict_set (pre_summary fl orders wh tp tf) (VStr ''summary'') (VDict s)"
proof -
  let ?p0 = "dict_set empty_profile (VStr ''basic_stats'') (VDict (basic_stats orders))"
  from assms obtain p1 p2 dt s where
    1: "set_trading_patterns (timestamps fi orders) ?p0 = Inr p1" and
    2: "set_trading_frequency orders (timestamps fi orders) (set_risk_preference fl orders p1) = Inr (p2, dt)" and
    3: "summary (set_pnl_analysis fl wh (dict_set p2 (VStr ''discipline_scores'') (VDict (discipline_scores orders)))) orders dt = Inr s" and
    4: "p = dict_set (set_pnl_analysis fl wh (dict_set p2 (VStr ''discipline_scores'') (VDict (discipline_scores orders)))) (VStr ''summary'') (VDict s)"
    by (auto simp: analyze_trader_profile_def Let_def bind_result_Inr split: prod.splits)
  from summary_Inr_daily [OF 3] obtain d where d: "dt = Some d" ..
  from set_trading_frequency_Inr [OF 2] d obtain ts tf where
    ts: "timestamps fi orders = Some ts" "2 \<le> length ts"
        "trading_frequency (length (filled_orders orders)) ts = Inr (tf, d)"
        "p2 = dict_set (set_risk_preference fl orders p1) (VStr ''trading_frequency'') (VDict tf)"
    by (auto split: if_splits)
  from ts(2) have "ts \<noteq> []" by auto
  from set_trading_patterns_Inr [OF 1 [unfolded ts(1)] this] obtain tp where
    tp: "trading_patterns ts = Inr tp" "p1 = dict_set ?p0 (VStr ''trading_patterns'') (VDict tp)"
    by blast
  show ?thesis using ts tp 3 4 d by (auto simp: pre_summary_def)
qed

lemma analyze_groups:
  assumes "analyze_trader_profile fi fl orders wh ex = Inr p"
  shows "\<exists>ts tp tf d s.
           timestamps fi orders = Some ts \<and> 2 \<le> length ts \<and>
           trading_patterns ts = Inr tp \<and>
           trading_frequency (length (filled_orders orders)) ts = Inr (tf, d) \<and>
           summary (pre_summary fl orders wh tp tf) orders (Some d) = Inr s \<and>
           p = [(VStr ''basic_stats'', VDict (basic_stats orders)),
                (VStr ''risk_preference'',
                   VDict (case order_sizes fl (filled_orders orders) of
                            [] \<Rightarrow> [] | s # rest \<Rightarrow> risk_preference s rest)),
                (VStr ''trading_frequency'', VDict tf),
                (VStr ''discipline_scores'', VDict (discipline_scores orders)),
                (VStr ''trading_patterns'', VDict tp),
                (VStr ''summary'', VDict s)]
               @ (if pnl_amounts fl (pnl_entries wh) = [] then []
                  else [(VStr ''pnl_analysis'',
                         VDict (pnl_analysis (pnl_amounts fl (pnl_entries wh))))])"
proof -
  from analyze_Inr [OF assms] obtain ts tp tf d s where
    *: "timestamps fi orders = Some ts" "2 \<le> length ts" "trading_patterns ts = Inr tp"
       "trading_frequency (length (filled_orders orders)) ts = Inr (tf, d)"
       "summary (pre_summary fl orders wh tp tf) orders (Some d) = Inr s"
       "p = dict_set (pre_summary fl orders wh tp tf) (VStr ''summary'') (VDict s)"
    by blast
  have "dict_set (pre_summary fl orders wh tp tf) (VStr ''summary'') (VDict s) =
        [(VStr ''basic_stats'', VDict (basic_stats orders)),
                (VStr ''risk_preference'',
                   VDict (case order_sizes fl (filled_orders orders) of
                            [] \<Rightarrow> [] | s # rest \<Rightarrow> risk_preference s rest)),
                (VStr ''trading_frequency'', VDict tf),
                (VStr ''discipline_scores'', VDict (discipline_scores orders)),
                (VStr ''trading_patterns'', VDict tp),
                (VStr ''summary'', VDict s)]
               @ (if pnl_amounts fl (pnl_entries wh) = [] then []
                  else [(VStr ''pnl_analysis'',
                         VDict (pnl_analysis (pnl_amounts fl (pnl_entries wh))))])"
    by (simp add: pre_summary_eq)
  with * show ?thesis by blast
qed

lemma analyze_returns:
  assumes "timestamps fi orders = Some ts" and "2 \<le> length ts"
    and "trading_patterns ts = Inr tp"
    and "trading_frequency (length (filled_orders orders)) ts = Inr (tf, d)"
    and "summary (pre_summary fl orders wh tp tf) orders (Some d) = Inr s"
  shows "analyze_trader_profile fi fl orders wh ex =
           Inr (dict_set (pre_summary fl orders wh tp tf) (VStr ''summary'') (VDict s))"
proof -
  from assms(2) obtain t ts' where ts: "ts = t # ts'" by (cases ts) auto
  let ?p0 = "dict_set empty_profile (VStr ''basic_stats'') (VDict (basic_stats orders))"
  have 1: "set_trading_patterns (Some ts) ?p0 =
             Inr (dict_set ?p0 (VStr ''trading_patterns'') (VDict tp))"
    using assms(3) by (simp add: set_trading_patterns_def ts)
  have 2: "set_trading_frequency orders (Some ts) q =
             Inr (dict_set q (VStr ''trading_frequency'') (VDict tf), Some d)" for q
    using assms(2,4) by (auto simp: set_trading_frequency_def)
  show ?thesis
    using assms(5)
    by (simp add: analyze_trader_profile_def Let_def assms(1) 1 2 pre_summary_def)
qed

lemma returns_iff:
  "(\<exists>p. analyze_trader_profile fi fl orders wh ex = Inr p) \<longleftrightarrow>
   (\<exists>ts. timestamps fi orders = Some ts \<and> 2 \<le> length ts \<and>
         (\<forall>a\<in>set ts. \<forall>b\<in>set ts. comparable a b))"
proof
  assume "\<exists>p. analyze_trader_profile fi fl orders wh ex = Inr p"
  then obtain p where "analyze_trader_profile fi fl orders wh ex = Inr p" ..
  from analyze_Inr [OF this] obtain ts tf d where
    "timestamps fi orders = Some ts" "2 \<le> length ts"
    "trading_frequency (length (filled_orders orders)) ts = Inr (tf, d)"
    by blast
  with trading_frequency_comparable [of "length (filled_orders orders)" ts "(tf, d)"]
  show "\<exists>ts. timestamps fi orders = Some ts \<and> 2 \<le> length ts \<and>
         (\<forall>a\<in>set ts. \<forall>b\<in>set ts. comparable a b)"
    by blast
next
  assume "\<exists>ts. timestamps fi orders = Some ts \<and> 2 \<le> length ts \<and>
         (\<forall>a\<in>set ts. \<forall>b\<in>set ts. comparable a b)"
  then obtain ts where ts: "timestamps fi orders = Some ts" "2 \<le> length ts"
    "\<forall>a\<in>set ts. \<forall>b\<in>set ts. comparable a b" by blast
  from ts(2) have ne: "ts \<noteq> []" by auto
  from trading_patterns_total [OF ne] obtain tp where tp: "trading_patterns ts = Inr tp" ..
  from trading_frequency_total [OF ne ts(3)] obtain tf d where
    tf: "trading_frequency (length (filled_orders orders)) ts = Inr (tf, d)" by blast
  from summary_total [OF tf] obtain s where
    s: "summary (pre_summary fl orders wh tp tf) orders (Some d) = Inr s" by blast
  from analyze_returns [OF ts(1,2) tp tf s]
  show "\<exists>p. analyze_trader_profile fi fl orders wh ex = Inr p" by blast
qed

lemma no_filled_order_raises:
  assumes "filled_orders orders = []"
  shows "analyze_trader_profile fi fl orders wh ex = Inl (UnboundLocalError ''timestamps'')"
  using assms
  by (simp add: analyze_trader_profile_def timestamps_def set_trading_patterns_def
      set_trading_frequency_def)

lemma few_timestamps_raise:
  assumes "timestamps fi orders = Some ts" and "length ts < 2"
  shows "analyze_trader_profile fi fl orders wh ex = Inl (UnboundLocalError ''daily_trades'')"
proof -
  have "\<exists>tp. set_trading_patterns (Some ts)
               (dict_set empty_profile (VStr ''basic_stats'') (VDict (basic_stats orders)))
             = Inr (dict_set
                 (dict_set empty_profile (VStr ''basic_stats'') (VDict (basic_stats orders)))
                 (VStr ''trading_patterns'') (VDict tp))"
  proof (cases ts)
    case Nil
    have "dict_set (dict_set empty_profile (VStr ''basic_stats'') (VDict (basic_stats orders)))
            (VStr ''trading_patterns'') (VDict [])
          = dict_set empty_profile (VStr ''basic_stats'') (VDict (basic_stats orders))"
      by (simp add: empty_profile_def)
    then show ?thesis
      by (intro exI [of _ "[]"]) (simp only: Nil set_trading_patterns_def option.case list.case)
  next
    case (Cons t ts')
    from trading_patterns_total [of ts] Cons obtain tp where "trading_patterns ts = Inr tp"
      by auto
    then show ?thesis
      by (intro exI [of _ tp]) (simp add: Cons set_trading_patterns_def)
  qed
  then obtain tp where
    1: "set_trading_patterns (Some ts)
               (dict_set empty_profile (VStr ''basic_stats'') (VDict (basic_stats orders)))
             = Inr (dict_set
                 (dict_set empty_profile (VStr ''basic_stats'') (VDict (basic_stats orders)))
                 (VStr ''trading_patterns'') (VDict tp))" ..
  have 2: "set_trading_frequency orders (Some ts) q = Inr (q, None)" for q
    using assms(2) by (simp add: set_trading_frequency_def)
  show ?thesis
    by (simp add: analyze_trader_profile_def assms(1) 1 2 Let_def pre_summary_no_frequency
        summary_unbound)
qed

section \<open>The claims of the specification\<close>

text \<open>
  Claim C1 says that the analysis completes on every input, also on an empty list of
  orders, with no parseable timestamp, and with fewer than two parsed timestamps. In
  each of the three cases the function does not complete. \<^verbatim>\<open>timestamps\<close> is assigned
  only under \<^verbatim>\<open>if filled_orders:\<close>, and line 136 reads it unbound when no order is
  filled; \<^verbatim>\<open>daily_trades\<close> is assigned only in the frequency section, and line 258
  reads it unbound when that section was skipped. This holds for every wallet history
  and every list of executions.
\<close>

theorem analysis_does_not_complete:
  "analyze_trader_profile fi fl [] wh ex = Inl (UnboundLocalError ''timestamps'') \<and>
   analyze_trader_profile example_fromisoformat fl [order_e] wh ex
     = Inl (UnboundLocalError ''daily_trades'') \<and>
   analyze_trader_profile example_fromisoformat fl [order_a] wh ex
     = Inl (UnboundLocalError ''daily_trades'')"
proof -
  have e: "timestamps example_fromisoformat [order_e] = Some []"
    by (simp add: timestamps_def filled_orders_def parse_timestamps_def order_e_def
        row_get_def replace_Z_def example_fromisoformat_def)
  have a: "timestamps example_fromisoformat [order_a] = Some [time_a]"
    by (simp add: timestamps_def filled_orders_def parse_timestamps_def order_a_def
        row_get_def replace_Z_def example_fromisoformat_def)
  show ?thesis
    using no_filled_order_raises [of "[]" fi fl wh ex]
      few_timestamps_raise [OF e, of fl wh ex] few_timestamps_raise [OF a, of fl wh ex]
    by (simp add: filled_orders_def)
qed

text \<open>
  Claim C2 says that a group whose minimum sample is unmet has its key absent from the
  returned profile. On two filled orders with timestamps and no usable size the profile
  is returned and holds the key \<^verbatim>\<open>risk_preference\<close>, bound to the empty mapping of the
  initial profile.
\<close>

theorem risk_group_key_present:
  "result_entry
     (analyze_trader_profile example_fromisoformat example_float [order_c, order_d] [funding] [])
     [''risk_preference''] = Inr (Some (VDict [])) \<and>
   order_sizes example_float (filled_orders [order_c, order_d]) = []"
  by code_simp

text \<open>
  Claim C2, amended: whenever a profile is returned and no filled order has a usable size,
  \<^verbatim>\<open>risk_preference\<close> is present in the profile and is the empty mapping, with no zero
  or placeholder metric in it.
\<close>

theorem risk_group_empty_when_no_size:
  assumes "analyze_trader_profile fi fl orders wh ex = Inr p"
    and "order_sizes fl (filled_orders orders) = []"
  shows "lookup_path (VDict p) [''risk_preference''] = Some (VDict [])"
  using analyze_groups [OF assms(1)] assms(2) by auto

theorem risk_group_empty_when_no_size_witness:
  "analyze_trader_profile example_fromisoformat example_float [order_c, order_d]
     [funding] [] = Inr (projr sizeless_run) \<and>
   order_sizes example_float (filled_orders [order_c, order_d]) = [] \<and>
   lookup_path (VDict (projr sizeless_run)) [''risk_preference''] = Some (VDict [])"
proof -
  have r: "analyze_trader_profile example_fromisoformat example_float [order_c, order_d]
             [funding] [] = Inr (projr sizeless_run)"
    by code_simp
  have e: "order_sizes example_float (filled_orders [order_c, order_d]) = []"
    by code_simp
  from risk_group_empty_when_no_size [OF r e] r e show ?thesis
    by blast
qed

text \<open>
  Claim C3 gives the basic statistics of the profile returned for the empty list of
  orders. The basic statistics section computes exactly these values, but no profile is
  returned: the run ends at line 136 with the exception of claim C1.
\<close>

theorem empty_orders_basic_stats_lost:
  "basic_stats [] =
     [(VStr ''total_orders'', VNum (PInt 0)),
      (VStr ''filled_orders'', VNum (PInt 0)),
      (VStr ''canceled_orders'', VNum (PInt 0)),
      (VStr ''fill_rate'', VNum (PInt 0)),
      (VStr ''order_types'', VDict [])] \<and>
   result_entry (analyze_trader_profile fi fl [] wh ex) [''basic_stats'']
     = Inl (UnboundLocalError ''timestamps'')"
  by (simp add: basic_stats_def fill_rate_def filled_orders_def canceled_orders_def
      order_types_def counts_def str_keys_def result_entry_def no_filled_order_raises)

text \<open>
  Claim C4: in every returned profile each of the four scores that appears is an integer
  from 1 to 10. The frequency, discipline and patience scores always appear; the risk
  score appears when a size was collected.
\<close>

theorem scores_in_range:
  assumes "analyze_trader_profile fi fl orders wh ex = Inr p"
  shows "(\<forall>v. lookup_path (VDict p) [''risk_preference'', ''risk_score''] = Some v \<longrightarrow> is_score v) \<and>
         (\<exists>v. lookup_path (VDict p) [''trading_frequency'', ''frequency_score''] = Some v \<and> is_score v) \<and>
         (\<exists>v. lookup_path (VDict p) [''discipline_scores'', ''discipline_score''] = Some v \<and> is_score v) \<and>
         (\<exists>v. lookup_path (VDict p) [''discipline_scores'', ''patience_score''] = Some v \<and> is_score v)"
proof -
  from analyze_groups [OF assms] obtain ts tp tf d s where
    tf: "trading_frequency (length (filled_orders orders)) ts = Inr (tf, d)" and
    p: "p = [(VStr ''basic_stats'', VDict (basic_stats orders)),
                (VStr ''risk_preference'',
                   VDict (case order_sizes fl (filled_orders orders) of
                            [] \<Rightarrow> [] | s # rest \<Rightarrow> risk_preference s rest)),
                (VStr ''trading_frequency'', VDict tf),
                (VStr ''discipline_scores'', VDict (discipline_scores orders)),
                (VStr ''trading_patterns'', VDict tp),
                (VStr ''summary'', VDict s)]
               @ (if pnl_amounts fl (pnl_entries wh) = [] then []
                  else [(VStr ''pnl_analysis'',
                         VDict (pnl_analysis (pnl_amounts fl (pnl_entries wh))))])"
    by blast
  note tf' = trading_frequency_Inr [OF tf]
  have 1: "\<forall>v. lookup_path (VDict p) [''risk_preference'', ''risk_score''] = Some v \<longrightarrow> is_score v"
    by (simp add: p risk_preference_def Let_def split: list.splits)
  have 2: "\<exists>v. lookup_path (VDict p) [''trading_frequency'', ''frequency_score''] = Some v \<and> is_score v"
    by (simp add: p tf')
  have 3: "\<exists>v. lookup_path (VDict p) [''discipline_scores'', ''discipline_score''] = Some v \<and> is_score v"
    by (simp add: p discipline_scores_def Let_def)
  have 4: "\<exists>v. lookup_path (VDict p) [''discipline_scores'', ''patience_score''] = Some v \<and> is_score v"
    by (simp add: p discipline_scores_def Let_def)
  from 1 2 3 4 show ?thesis by blast
qed

theorem scores_in_range_witness:
  "analyze_trader_profile example_fromisoformat example_float example_orders
     example_wallet [] = Inr (projr example_run) \<and>
   lookup_path (VDict (projr example_run)) [''risk_preference'', ''risk_score'']
     = Some (VNum (PInt 10)) \<and>
   is_score (VNum (PInt 10))"
proof -
  have r: "analyze_trader_profile example_fromisoformat example_float example_orders
             example_wallet [] = Inr (projr example_run)"
    by code_simp
  have l: "lookup_path (VDict (projr example_run)) [''risk_preference'', ''risk_score'']
             = Some (VNum (PInt 10))"
    by code_simp
  from scores_in_range [OF r] l have "is_score (VNum (PInt 10))"
    by blast
  with r l show ?thesis
    by blast
qed

text \<open>
  Claim C5: in every returned profile the trader type is the label that the decision
  table gives, first matching row first, for the frequency level and the risk level of
  the profile, each read as \<^verbatim>\<open>"Unknown"\<close> when its group has no level.
\<close>

theorem trader_type_by_table:
  assumes "analyze_trader_profile fi fl orders wh ex = Inr p"
  shows "lookup_path (VDict p) [''summary'', ''trader_type''] =
           Some (VStr (first_match decision_table
                   (level_or_unknown p ''trading_frequency'' ''frequency_level'')
                   (level_or_unknown p ''risk_preference'' ''risk_level'')))"
proof -
  from analyze_groups [OF assms] obtain ts tp tf d s where
    s: "summary (pre_summary fl orders wh tp tf) orders (Some d) = Inr s" and
    p: "p = [(VStr ''basic_stats'', VDict (basic_stats orders)),
                (VStr ''risk_preference'',
                   VDict (case order_sizes fl (filled_orders orders) of
                            [] \<Rightarrow> [] | s # rest \<Rightarrow> risk_preference s rest)),
                (VStr ''trading_frequency'', VDict tf),
                (VStr ''discipline_scores'', VDict (discipline_scores orders)),
                (VStr ''trading_patterns'', VDict tp),
                (VStr ''summary'', VDict s)]
               @ (if pnl_amounts fl (pnl_entries wh) = [] then []
                  else [(VStr ''pnl_analysis'',
                         VDict (pnl_analysis (pnl_amounts fl (pnl_entries wh))))])"
    by blast
  let ?P = "pre_summary fl orders wh tp tf"
  from summary_Inr [OF s] obtain rl fq where
    rl: "get_level ?P ''risk_preference'' ''risk_level'' = Inr rl" and
    fq: "get_level ?P ''trading_frequency'' ''frequency_level'' = Inr fq" and
    tt: "map_of s (VStr ''trader_type'') = Some (VStr (trader_type fq rl))"
    by blast
  have "level_or_unknown ?P ''risk_preference'' ''risk_level''
          = level_or_unknown p ''risk_preference'' ''risk_level''"
    by (simp add: level_or_unknown_def pre_summary_eq p)
  with get_level_Inr [OF rl] have 1: "rl = level_or_unknown p ''risk_preference'' ''risk_level''"
    by simp
  have "level_or_unknown ?P ''trading_frequency'' ''frequency_level''
          = level_or_unknown p ''trading_frequency'' ''frequency_level''"
    by (simp add: level_or_unknown_def pre_summary_eq p)
  with get_level_Inr [OF fq] have 2: "fq = level_or_unknown p ''trading_frequency'' ''frequency_level''"
    by simp
  have "lookup_path (VDict p) [''summary'', ''trader_type''] = Some (VStr (trader_type fq rl))"
    using tt by (simp add: p)
  then show ?thesis
    by (simp only: 1 2 trader_type_table)
qed

theorem trader_type_by_table_witness:
  "analyze_trader_profile example_fromisoformat example_float example_orders
     example_wallet [] = Inr (projr example_run) \<and>
   lookup_path (VDict (projr example_run)) [''summary'', ''trader_type'']
     = Some (VStr ''Bold Swing Trader'')"
proof -
  have r: "analyze_trader_profile example_fromisoformat example_float example_orders
             example_wallet [] = Inr (projr example_run)"
    by code_simp
  have t: "first_match decision_table
          (level_or_unknown (projr example_run) ''trading_frequency'' ''frequency_level'')
          (level_or_unknown (projr example_run) ''risk_preference'' ''risk_level'')
        = ''Bold Swing Trader''"
    by code_simp
  from trader_type_by_table [OF r]
  have "lookup_path (VDict (projr example_run)) [''summary'', ''trader_type'']
          = Some (VStr ''Bold Swing Trader'')"
    by (simp only: t)
  with r show ?thesis
    by blast
qed




text \<open>
  Claim C7: when the wallet history has no entry of type \<^verbatim>\<open>RealisedPNL\<close>, the key
  \<^verbatim>\<open>pnl_analysis\<close> is absent from the returned profile.
\<close>

theorem no_realised_pnl_no_group:
  assumes "analyze_trader_profile fi fl orders wallet_history ex = Inr p"
    and "\<forall>w \<in> set wallet_history. w ''transactType'' \<noteq> Some ''RealisedPNL''"
  shows "VStr ''pnl_analysis'' \<notin> fst ` set p"
proof -
  from assms(2) have "pnl_entries wallet_history = []"
    by (simp add: pnl_entries_def filter_empty_conv)
  with analyze_groups [OF assms(1)] show ?thesis
    by auto
qed

theorem no_realised_pnl_no_group_witness:
  "analyze_trader_profile example_fromisoformat example_float [order_c, order_d]
     [funding] [] = Inr (projr sizeless_run) \<and>
   funding ''transactType'' = Some ''Funding'' \<and>
   VStr ''pnl_analysis'' \<notin> fst ` set (projr sizeless_run)"
proof -
  have r: "analyze_trader_profile example_fromisoformat example_float [order_c, order_d]
             [funding] [] = Inr (projr sizeless_run)"
    by code_simp
  have f: "funding ''transactType'' = Some ''Funding''"
    by (simp add: funding_def)
  then have w: "\<forall>w \<in> set [funding]. w ''transactType'' \<noteq> Some ''RealisedPNL''"
    by simp
  from no_realised_pnl_no_group [OF r w] r f show ?thesis
    by blast
qed

text \<open>
  Claim C8: when exactly two orders are filled and their timestamps parse to two values
  that compare (both aware, as UTC timestamps are, or both naive) and lie ten minutes
  apart, the analysis returns a profile whose trading frequency group has
  \<^verbatim>\<open>total_trading_days\<close> 1 and \<^verbatim>\<open>avg_trade_interval_minutes\<close> 10. Two such timestamps
  on one day are a special case.
\<close>

theorem two_trades_ten_minutes_apart:
  assumes f: "filled_orders orders = [o1, o2]"
    and t1: "fi (replace_Z (row_get o1 ''timestamp'' [])) = Some t1"
    and t2: "fi (replace_Z (row_get o2 ''timestamp'' [])) = Some t2"
    and c: "comparable t1 t2"
    and gap: "\<bar>instant t2 - instant t1\<bar> = 600000000"
  shows "\<exists>p. analyze_trader_profile fi fl orders wh ex = Inr p \<and>
           lookup_path (VDict p) [''trading_frequency'', ''total_trading_days'']
             = Some (VNum (PInt 1)) \<and>
           lookup_path (VDict p) [''trading_frequency'', ''avg_trade_interval_minutes'']
             = Some (VNum (PFloat 10))"
proof -
  have ts: "timestamps fi orders = Some [t1, t2]"
    by (simp add: timestamps_def parse_timestamps_def f t1 t2 List.map_filter_simps)
  from frequency_two_trades [OF c gap, of "length (filled_orders orders)"] obtain tf d where
    tf: "trading_frequency (length (filled_orders orders)) [t1, t2] = Inr (tf, d)" and
    days: "map_of tf (VStr ''total_trading_days'') = Some (VNum (PInt 1))" and
    avg: "map_of tf (VStr ''avg_trade_interval_minutes'') = Some (VNum (PFloat 10))"
    by blast
  from trading_patterns_total [of "[t1, t2]"] obtain tp where
    tp: "trading_patterns [t1, t2] = Inr tp" by auto
  from summary_total [OF tf] obtain s where
    s: "summary (pre_summary fl orders wh tp tf) orders (Some d) = Inr s" by blast
  have "analyze_trader_profile fi fl orders wh ex =
          Inr (dict_set (pre_summary fl orders wh tp tf) (VStr ''summary'') (VDict s))"
    by (rule analyze_returns [OF ts _ tp tf s]) simp
  moreover have "lookup_path
      (VDict (dict_set (pre_summary fl orders wh tp tf) (VStr ''summary'') (VDict s)))
      [''trading_frequency'', k] = map_of tf (VStr k)" for k
    by (simp add: pre_summary_eq split: option.splits)
  ultimately show ?thesis
    using days avg by simp
qed

theorem two_trades_ten_minutes_apart_witness:
  "filled_orders example_orders = [order_a, order_b] \<and>
   example_fromisoformat (replace_Z (row_get order_a ''timestamp'' [])) = Some time_a \<and>
   example_fromisoformat (replace_Z (row_get order_b ''timestamp'' [])) = Some time_b \<and>
   comparable time_a time_b \<and>
   \<bar>instant time_b - instant time_a\<bar> = 600000000 \<and>
   result_entry example_run [''trading_frequency'', ''total_trading_days'']
     = Inr (Some (VNum (PInt 1))) \<and>
   result_entry example_run [''trading_frequency'', ''avg_trade_interval_minutes'']
     = Inr (Some (VNum (PFloat 10)))"
proof -
  have f: "filled_orders example_orders = [order_a, order_b]"
    by (simp add: filled_orders_def example_orders_def order_a_def order_b_def)
  have a: "example_fromisoformat (replace_Z (row_get order_a ''timestamp'' [])) = Some time_a"
    by (simp add: example_fromisoformat_def replace_Z_def row_get_def order_a_def)
  have b: "example_fromisoformat (replace_Z (row_get order_b ''timestamp'' [])) = Some time_b"
    by (simp add: example_fromisoformat_def replace_Z_def row_get_def order_b_def)
  have c: "comparable time_a time_b"
    by (simp add: comparable_def time_a_def time_b_def)
  have g: "\<bar>instant time_b - instant time_a\<bar> = 600000000"
    by code_simp
  from two_trades_ten_minutes_apart [OF f a b c g, of example_float example_wallet "[]"]
  have "result_entry example_run [''trading_frequency'', ''total_trading_days'']
          = Inr (Some (VNum (PInt 1))) \<and>
        result_entry example_run [''trading_frequency'', ''avg_trade_interval_minutes'']
          = Inr (Some (VNum (PFloat 10)))"
    by (auto simp: result_entry_def example_run_def)
  with f a b c g show ?thesis
    by blast
qed


text \<open>
  Claim C10: in every returned profile the counts of \<^verbatim>\<open>order_types\<close> add up to
  \<^verbatim>\<open>total_orders\<close>, and \<^verbatim>\<open>filled_orders\<close> plus \<^verbatim>\<open>canceled_orders\<close> is at most
  \<^verbatim>\<open>total_orders\<close>.
\<close>

theorem order_types_sum_to_total:
  assumes "analyze_trader_profile fi fl orders wh ex = Inr p"
  shows "\<exists>types total filled canceled.
           lookup_path (VDict p) [''basic_stats'', ''order_types''] = Some (VDict (str_keys types)) \<and>
           lookup_path (VDict p) [''basic_stats'', ''total_orders''] = Some (VNum (PInt total)) \<and>
           lookup_path (VDict p) [''basic_stats'', ''filled_orders''] = Some (VNum (PInt filled)) \<and>
           lookup_path (VDict p) [''basic_stats'', ''canceled_orders''] = Some (VNum (PInt canceled)) \<and>
           int (sum_list (map snd types)) = total \<and> filled + canceled \<le> total"
proof -
  from analyze_groups [OF assms] have
    bs: "map_of p (VStr ''basic_stats'') = Some (VDict (basic_stats orders))"
    by auto
  have "int (sum_list (map snd (order_types orders))) = int (length orders)"
    by (simp add: order_types_def sum_counts)
  moreover have "int (length (filled_orders orders)) + int (length (canceled_orders orders))
                   \<le> int (length orders)"
    using filled_canceled_le [of orders] by linarith
  ultimately show ?thesis
    using bs
    by (intro exI [of _ "order_types orders"] exI [of _ "int (length orders)"]
        exI [of _ "int (length (filled_orders orders))"]
        exI [of _ "int (length (canceled_orders orders))"])
      (simp add: basic_stats_def)
qed

theorem order_types_sum_to_total_witness:
  "analyze_trader_profile example_fromisoformat example_float example_orders
     example_wallet [] = Inr (projr example_run) \<and>
   (\<exists>types total filled canceled.
      lookup_path (VDict (projr example_run)) [''basic_stats'', ''order_types'']
        = Some (VDict (str_keys types)) \<and>
      lookup_path (VDict (projr example_run)) [''basic_stats'', ''total_orders'']
        = Some (VNum (PInt total)) \<and>
      lookup_path (VDict (projr example_run)) [''basic_stats'', ''filled_orders'']
        = Some (VNum (PInt filled)) \<and>
      lookup_path (VDict (projr example_run)) [''basic_stats'', ''canceled_orders'']
        = Some (VNum (PInt canceled)) \<and>
      int (sum_list (map snd types)) = total \<and> filled + canceled \<le> total)"
proof -
  have r: "analyze_trader_profile example_fromisoformat example_float example_orders
             example_wallet [] = Inr (projr example_run)"
    by code_simp
  from order_types_sum_to_total [OF r] r show ?thesis
    by blast
qed

end
